theory Spec2Isabelle
  imports Main
begin

section \<open>The preprocessor fragment used by \<open>linux/libc-compat.h\<close>\<close>

text \<open>
  The header consists of conditional-inclusion directives and object-like macro
  definitions only. Its meaning is the change it makes to the macro environment of the
  translation unit that includes it. The environment maps a macro name to its
  replacement text; a name that is not mapped is not defined. A marker such as
  \<open>_TIME_H\<close> is usually defined with an empty replacement text, so being defined is
  \<open>env m \<noteq> None\<close>, whatever the text.
\<close>

type_synonym macro_env = "string \<rightharpoonup> string"

text \<open>
  The directives of the header: \<^verbatim>\<open>#define NAME body\<close>, \<^verbatim>\<open>#ifdef NAME\<close>,
  \<^verbatim>\<open>#ifndef NAME\<close> and \<^verbatim>\<open>#if defined(NAME)\<close>, each conditional with the group it
  includes when its test holds and the group after \<^verbatim>\<open>#else\<close> (empty when there is no
  \<^verbatim>\<open>#else\<close>).
\<close>

datatype directive =
    Define string string
  | Ifdef string "directive list" "directive list"
  | Ifndef string "directive list" "directive list"
  | If_defined string "directive list" "directive list"

text \<open>
  Processing a directive. \<^verbatim>\<open>#define\<close> binds the name to the new replacement text; a
  name that was bound before is bound to the new text afterwards (compilers diagnose a
  redefinition with a different text and go on with the new one). A conditional tests
  the environment as it is when the directive is reached.
\<close>

fun exec :: "directive \<Rightarrow> macro_env \<Rightarrow> macro_env"
  and execs :: "directive list \<Rightarrow> macro_env \<Rightarrow> macro_env" where
  "exec (Define n b) env = env(n \<mapsto> b)"
| "exec (Ifdef m t e) env = (if env m \<noteq> None then execs t env else execs e env)"
| "exec (Ifndef m t e) env = (if env m = None then execs t env else execs e env)"
| "exec (If_defined m t e) env = (if env m \<noteq> None then execs t env else execs e env)"
| "execs [] env = env"
| "execs (d # ds) env = execs ds (exec d env)"

text \<open>The names a directive can define, on any path through it.\<close>

fun targets :: "directive \<Rightarrow> string list"
  and targets_list :: "directive list \<Rightarrow> string list" where
  "targets (Define n b) = [n]"
| "targets (Ifdef m t e) = targets_list t @ targets_list e"
| "targets (Ifndef m t e) = targets_list t @ targets_list e"
| "targets (If_defined m t e) = targets_list t @ targets_list e"
| "targets_list [] = []"
| "targets_list (d # ds) = targets d @ targets_list ds"

section \<open>The header\<close>

text \<open>Lines 53 to 154: the part processed when \<open>__KERNEL__\<close> is not defined.\<close>

definition userspace_branch :: "directive list" where
  "userspace_branch =
    [Ifdef ''_NETINET_IF_ETHER_H''
       [Define ''__UAPI_DEF_ETHHDR'' ''0'']
       [Define ''__UAPI_DEF_ETHHDR'' ''1''],
     Ifdef ''_NETINET_TCP_H''
       [Define ''__UAPI_DEF_TCPHDR'' ''0'']
       [Define ''__UAPI_DEF_TCPHDR'' ''1''],
     Ifdef ''_TIME_H''
       [Define ''__UAPI_DEF_TIMESPEC'' ''0'',
        Define ''__UAPI_DEF_ITIMERSPEC'' ''0'']
       [Define ''__UAPI_DEF_TIMESPEC'' ''1'',
        Define ''__UAPI_DEF_ITIMERSPEC'' ''1''],
     Ifdef ''_SYS_TIME_H''
       [Define ''__UAPI_DEF_TIMEVAL'' ''0'',
        Define ''__UAPI_DEF_ITIMERVAL'' ''0'',
        Define ''__UAPI_DEF_TIMEZONE'' ''0'']
       [Define ''__UAPI_DEF_TIMEVAL'' ''1'',
        Define ''__UAPI_DEF_ITIMERVAL'' ''1'',
        Define ''__UAPI_DEF_TIMEZONE'' ''1''],
     Ifdef ''_NET_IF_H''
       [Define ''__UAPI_DEF_IF_IFNAMSIZ'' ''0'',
        Define ''__UAPI_DEF_IF_NET_DEVICE_FLAGS_LOWER_UP_DORMANT_ECHO'' ''0'',
        Define ''__UAPI_DEF_IF_NET_DEVICE_FLAGS'' ''0'',
        Define ''__UAPI_DEF_IF_IFMAP'' ''0'',
        Define ''__UAPI_DEF_IF_IFREQ'' ''0'',
        Define ''__UAPI_DEF_IF_IFCONF'' ''0'']
       [Define ''__UAPI_DEF_IF_IFNAMSIZ'' ''1'',
        Define ''__UAPI_DEF_IF_NET_DEVICE_FLAGS_LOWER_UP_DORMANT_ECHO'' ''1'',
        Define ''__UAPI_DEF_IF_NET_DEVICE_FLAGS'' ''1'',
        Define ''__UAPI_DEF_IF_IFMAP'' ''1'',
        Define ''__UAPI_DEF_IF_IFREQ'' ''1'',
        Define ''__UAPI_DEF_IF_IFCONF'' ''1''],
     If_defined ''_NETINET_IN_H''
       [Define ''__UAPI_DEF_IN_ADDR'' ''0'',
        Define ''__UAPI_DEF_IN_IPPROTO'' ''0'',
        Define ''__UAPI_DEF_IN_PKTINFO'' ''0'',
        Define ''__UAPI_DEF_IP_MREQ'' ''0'',
        Define ''__UAPI_DEF_SOCKADDR_IN'' ''0'',
        Define ''__UAPI_DEF_IN_CLASS'' ''0'',
        Define ''__UAPI_DEF_IN6_ADDR'' ''0'',
        Define ''__UAPI_DEF_IN6_ADDR_ALT'' ''0'',
        Define ''__UAPI_DEF_SOCKADDR_IN6'' ''0'',
        Define ''__UAPI_DEF_IPV6_MREQ'' ''0'',
        Define ''__UAPI_DEF_IPPROTO_V6'' ''0'',
        Define ''__UAPI_DEF_IPV6_OPTIONS'' ''0'',
        Define ''__UAPI_DEF_IN6_PKTINFO'' ''0'',
        Define ''__UAPI_DEF_IP6_MTUINFO'' ''0'']
       [Define ''__UAPI_DEF_IN_ADDR'' ''1'',
        Define ''__UAPI_DEF_IN_IPPROTO'' ''1'',
        Define ''__UAPI_DEF_IN_PKTINFO'' ''1'',
        Define ''__UAPI_DEF_IP_MREQ'' ''1'',
        Define ''__UAPI_DEF_SOCKADDR_IN'' ''1'',
        Define ''__UAPI_DEF_IN_CLASS'' ''1'',
        Define ''__UAPI_DEF_IN6_ADDR'' ''1'',
        Define ''__UAPI_DEF_IN6_ADDR_ALT'' ''1'',
        Define ''__UAPI_DEF_SOCKADDR_IN6'' ''1'',
        Define ''__UAPI_DEF_IPV6_MREQ'' ''1'',
        Define ''__UAPI_DEF_IPPROTO_V6'' ''1'',
        Define ''__UAPI_DEF_IPV6_OPTIONS'' ''1'',
        Define ''__UAPI_DEF_IN6_PKTINFO'' ''1'',
        Define ''__UAPI_DEF_IP6_MTUINFO'' ''1''],
     If_defined ''_SYS_XATTR_H''
       [Define ''__UAPI_DEF_XATTR'' ''0'']
       [Define ''__UAPI_DEF_XATTR'' ''1'']]"

text \<open>Lines 161 to 196: the part processed when \<open>__KERNEL__\<close> is defined.\<close>

definition kernel_branch :: "directive list" where
  "kernel_branch =
    [Define ''__UAPI_DEF_IN_ADDR'' ''1'',
     Define ''__UAPI_DEF_IN_IPPROTO'' ''1'',
     Define ''__UAPI_DEF_IN_PKTINFO'' ''1'',
     Define ''__UAPI_DEF_IP_MREQ'' ''1'',
     Define ''__UAPI_DEF_SOCKADDR_IN'' ''1'',
     Define ''__UAPI_DEF_IN_CLASS'' ''1'',
     Define ''__UAPI_DEF_IN6_ADDR'' ''1'',
     Define ''__UAPI_DEF_IN6_ADDR_ALT'' ''1'',
     Define ''__UAPI_DEF_SOCKADDR_IN6'' ''1'',
     Define ''__UAPI_DEF_IPV6_MREQ'' ''1'',
     Define ''__UAPI_DEF_IPPROTO_V6'' ''1'',
     Define ''__UAPI_DEF_IPV6_OPTIONS'' ''1'',
     Define ''__UAPI_DEF_IN6_PKTINFO'' ''1'',
     Define ''__UAPI_DEF_IP6_MTUINFO'' ''1'',
     Define ''__UAPI_DEF_XATTR'' ''1'',
     Define ''__UAPI_DEF_TCPHDR'' ''1'',
     Define ''__UAPI_DEF_ETHHDR'' ''1'',
     Define ''__UAPI_DEF_TIMESPEC'' ''1'',
     Define ''__UAPI_DEF_ITIMERSPEC'' ''1'',
     Define ''__UAPI_DEF_TIMEVAL'' ''1'',
     Define ''__UAPI_DEF_ITIMERVAL'' ''1'',
     Define ''__UAPI_DEF_TIMEZONE'' ''1'',
     Define ''__UAPI_DEF_IF_IFNAMSIZ'' ''1'',
     Define ''__UAPI_DEF_IF_NET_DEVICE_FLAGS_LOWER_UP_DORMANT_ECHO'' ''1'',
     Define ''__UAPI_DEF_IF_NET_DEVICE_FLAGS'' ''1'',
     Define ''__UAPI_DEF_IF_IFMAP'' ''1'',
     Define ''__UAPI_DEF_IF_IFREQ'' ''1'',
     Define ''__UAPI_DEF_IF_IFCONF'' ''1'']"

text \<open>
  Lines 48 to 200: the include guard around the whole body, then the test of
  \<open>__KERNEL__\<close> that chooses between the two parts.
\<close>

definition libc_compat_h :: "directive list" where
  "libc_compat_h =
    [Ifndef ''_LIBC_COMPAT_H''
       [Define ''_LIBC_COMPAT_H'' [],
        Ifndef ''__KERNEL__'' userspace_branch kernel_branch]
       []]"

definition process :: "macro_env \<Rightarrow> macro_env" where
  "process env = execs libc_compat_h env"

section \<open>Definition groups, their markers and their guards\<close>

text \<open>
  The groups of definitions the header coordinates. Each has the include-guard macro of
  the competing library header as its marker and one or more guard macros. The IPv4
  and the IPv6 group share the marker \<open>_NETINET_IN_H\<close>.
\<close>

datatype group =
  Ethhdr | Tcphdr | Timespec | Timeval | Net_if | In4 | In6 | Xattr

definition all_groups :: "group list" where
  "all_groups = [Ethhdr, Tcphdr, Timespec, Timeval, Net_if, In4, In6, Xattr]"

fun marker :: "group \<Rightarrow> string" where
  "marker Ethhdr = ''_NETINET_IF_ETHER_H''"
| "marker Tcphdr = ''_NETINET_TCP_H''"
| "marker Timespec = ''_TIME_H''"
| "marker Timeval = ''_SYS_TIME_H''"
| "marker Net_if = ''_NET_IF_H''"
| "marker In4 = ''_NETINET_IN_H''"
| "marker In6 = ''_NETINET_IN_H''"
| "marker Xattr = ''_SYS_XATTR_H''"

fun guards :: "group \<Rightarrow> string list" where
  "guards Ethhdr = [''__UAPI_DEF_ETHHDR'']"
| "guards Tcphdr = [''__UAPI_DEF_TCPHDR'']"
| "guards Timespec = [''__UAPI_DEF_TIMESPEC'', ''__UAPI_DEF_ITIMERSPEC'']"
| "guards Timeval =
     [''__UAPI_DEF_TIMEVAL'', ''__UAPI_DEF_ITIMERVAL'', ''__UAPI_DEF_TIMEZONE'']"
| "guards Net_if =
     [''__UAPI_DEF_IF_IFNAMSIZ'',
      ''__UAPI_DEF_IF_NET_DEVICE_FLAGS_LOWER_UP_DORMANT_ECHO'',
      ''__UAPI_DEF_IF_NET_DEVICE_FLAGS'',
      ''__UAPI_DEF_IF_IFMAP'',
      ''__UAPI_DEF_IF_IFREQ'',
      ''__UAPI_DEF_IF_IFCONF'']"
| "guards In4 =
     [''__UAPI_DEF_IN_ADDR'',
      ''__UAPI_DEF_IN_IPPROTO'',
      ''__UAPI_DEF_IN_PKTINFO'',
      ''__UAPI_DEF_IP_MREQ'',
      ''__UAPI_DEF_SOCKADDR_IN'',
      ''__UAPI_DEF_IN_CLASS'']"
| "guards In6 =
     [''__UAPI_DEF_IN6_ADDR'',
      ''__UAPI_DEF_IN6_ADDR_ALT'',
      ''__UAPI_DEF_SOCKADDR_IN6'',
      ''__UAPI_DEF_IPV6_MREQ'',
      ''__UAPI_DEF_IPPROTO_V6'',
      ''__UAPI_DEF_IPV6_OPTIONS'',
      ''__UAPI_DEF_IN6_PKTINFO'',
      ''__UAPI_DEF_IP6_MTUINFO'']"
| "guards Xattr = [''__UAPI_DEF_XATTR'']"

definition all_guards :: "string list" where
  "all_guards = concat (map guards all_groups)"

text \<open>
  The shape every conditional block of the userspace part has: under the conditional
  \<open>form\<close> testing \<open>m\<close>, each name of \<open>ns\<close> is defined as 0, and after \<^verbatim>\<open>#else\<close>
  each is defined as 1. It is used to show that the tables above are the header's.
\<close>

definition block ::
  "(string \<Rightarrow> directive list \<Rightarrow> directive list \<Rightarrow> directive) \<Rightarrow> string \<Rightarrow> string list \<Rightarrow> directive"
  where
  "block form m ns = form m (map (\<lambda>n. Define n ''0'') ns) (map (\<lambda>n. Define n ''1'') ns)"

text \<open>The configurations used as concrete inputs below.\<close>

definition kernel_after_time_h :: macro_env where
  "kernel_after_time_h = [''__KERNEL__'' \<mapsto> [], ''_TIME_H'' \<mapsto> []]"

definition musl_time_and_net :: macro_env where
  "musl_time_and_net = [''_TIME_H'' \<mapsto> [], ''_NET_IF_H'' \<mapsto> [], ''_STDIO_H'' \<mapsto> []]"

definition glibc_netinet_in :: macro_env where
  "glibc_netinet_in = [''_NETINET_IN_H'' \<mapsto> ''1'', ''_SYS_XATTR_H'' \<mapsto> ''1'']"

section \<open>Properties of the directive language\<close>

text \<open>A directive changes the environment at most at the names it can define.\<close>

lemma exec_execs_frame:
  "x \<notin> set (targets d) \<Longrightarrow> exec d env x = env x"
  "x \<notin> set (targets_list ds) \<Longrightarrow> execs ds env x = env x"
  by (induction d env and ds env rule: exec_execs.induct) auto

text \<open>No directive of this language removes a definition.\<close>

lemma exec_execs_keeps_defined:
  "env x \<noteq> None \<Longrightarrow> exec d env x \<noteq> None"
  "env x \<noteq> None \<Longrightarrow> execs ds env x \<noteq> None"
  by (induction d env and ds env rule: exec_execs.induct) auto

text \<open>
  Looking a name up behind a conditional: the conditional is passed over when it cannot
  define the name, and entered otherwise.
\<close>

lemma exec_skip:
  "x \<notin> set (targets_list t) \<Longrightarrow> x \<notin> set (targets_list e) \<Longrightarrow>
     exec (Ifdef m t e) env x = env x"
  "x \<notin> set (targets_list t) \<Longrightarrow> x \<notin> set (targets_list e) \<Longrightarrow>
     exec (Ifndef m t e) env x = env x"
  "x \<notin> set (targets_list t) \<Longrightarrow> x \<notin> set (targets_list e) \<Longrightarrow>
     exec (If_defined m t e) env x = env x"
  by (simp_all add: exec_execs_frame)

lemma exec_enter:
  "x \<in> set (targets_list t @ targets_list e) \<Longrightarrow>
     exec (Ifdef m t e) env x = (if env m \<noteq> None then execs t env x else execs e env x)"
  "x \<in> set (targets_list t @ targets_list e) \<Longrightarrow>
     exec (Ifndef m t e) env x = (if env m = None then execs t env x else execs e env x)"
  "x \<in> set (targets_list t @ targets_list e) \<Longrightarrow>
     exec (If_defined m t e) env x = (if env m \<noteq> None then execs t env x else execs e env x)"
  by simp_all

section \<open>The tables are the header's\<close>

lemma userspace_branch_blocks:
  "userspace_branch =
     [block Ifdef (marker Ethhdr) (guards Ethhdr),
      block Ifdef (marker Tcphdr) (guards Tcphdr),
      block Ifdef (marker Timespec) (guards Timespec),
      block Ifdef (marker Timeval) (guards Timeval),
      block Ifdef (marker Net_if) (guards Net_if),
      block If_defined ''_NETINET_IN_H'' (guards In4 @ guards In6),
      block If_defined (marker Xattr) (guards Xattr)]"
  by (simp add: userspace_branch_def block_def)

lemma kernel_branch_guards:
  "kernel_branch =
     map (\<lambda>n. Define n ''1'')
       (guards In4 @ guards In6 @ guards Xattr @ guards Tcphdr @ guards Ethhdr @
        guards Timespec @ guards Timeval @ guards Net_if)"
  by (simp add: kernel_branch_def)

lemma all_groups_complete: "g \<in> set all_groups"
  by (cases g) (simp_all add: all_groups_def)

lemma in_all_guards: "n \<in> set all_guards \<longleftrightarrow> (\<exists>g. n \<in> set (guards g))"
  unfolding all_guards_def set_concat using all_groups_complete by auto

lemma distinct_all_guards: "distinct all_guards"
  by (simp add: all_guards_def all_groups_def)

section \<open>The value of every guard\<close>

lemma execs_map_Define:
  "execs (map (\<lambda>n. Define n b) ns) env x = (if x \<in> set ns then Some b else env x)"
  by (induction ns arbitrary: env) auto

lemma exec_block:
  "exec (block Ifdef m ns) env x =
     (if x \<in> set ns then Some (if env m \<noteq> None then ''0'' else ''1'') else env x)"
  "exec (block If_defined m ns) env x =
     (if x \<in> set ns then Some (if env m \<noteq> None then ''0'' else ''1'') else env x)"
  by (simp_all add: block_def execs_map_Define)

lemma userspace_guards:
  "list_all (\<lambda>n. execs userspace_branch env n =
       Some (if env (marker g) \<noteq> None then ''0'' else ''1'')) (guards g)"
  unfolding userspace_branch_blocks
  by (cases g) (simp_all add: exec_block)

lemma kernel_guards:
  "list_all (\<lambda>n. execs kernel_branch env n = Some ''1'') (guards g)"
  unfolding kernel_branch_guards execs_map_Define
  by (cases g) simp_all

lemma marker_not_include_guard: "marker g \<noteq> ''_LIBC_COMPAT_H''"
  by (cases g) simp_all

lemma process_first_inclusion:
  assumes "env ''_LIBC_COMPAT_H'' = None"
  shows "process env =
     (if env ''__KERNEL__'' = None
      then execs userspace_branch (env(''_LIBC_COMPAT_H'' \<mapsto> []))
      else execs kernel_branch (env(''_LIBC_COMPAT_H'' \<mapsto> [])))"
  using assms by (simp add: process_def libc_compat_h_def)

lemma process_skip:
  assumes "env ''_LIBC_COMPAT_H'' \<noteq> None"
  shows "process env = env"
  using assms by (auto simp add: process_def libc_compat_h_def)

lemma guard_value:
  assumes first: "env ''_LIBC_COMPAT_H'' = None" and n: "n \<in> set (guards g)"
  shows "process env n =
     Some (if env ''__KERNEL__'' = None \<and> env (marker g) \<noteq> None then ''0'' else ''1'')"
proof (cases "env ''__KERNEL__'' = None")
  case True
  let ?env = "env(''_LIBC_COMPAT_H'' \<mapsto> [])"
  have "execs userspace_branch ?env n =
      Some (if ?env (marker g) \<noteq> None then ''0'' else ''1'')"
    using userspace_guards [of ?env g] n by (simp add: list_all_iff)
  moreover have "?env (marker g) = env (marker g)"
    using marker_not_include_guard [of g] by simp
  ultimately show ?thesis
    using True first by (simp add: process_first_inclusion [of env])
next
  case False
  have "execs kernel_branch (env(''_LIBC_COMPAT_H'' \<mapsto> [])) n = Some ''1''"
    using kernel_guards [of "env(''_LIBC_COMPAT_H'' \<mapsto> [])" g] n by (simp add: list_all_iff)
  then show ?thesis
    using False first by (auto simp add: process_first_inclusion [of env])
qed

lemma include_guard_not_guard: "''_LIBC_COMPAT_H'' \<notin> set all_guards"
  by (simp add: all_guards_def all_groups_def)

lemma targets_libc_compat_h:
  assumes "n \<noteq> ''_LIBC_COMPAT_H''" and "n \<notin> set all_guards"
  shows "n \<notin> set (targets_list libc_compat_h)"
  using assms
  by (simp add: libc_compat_h_def userspace_branch_def kernel_branch_def
      all_guards_def all_groups_def)

lemma process_outside:
  assumes "n \<noteq> ''_LIBC_COMPAT_H''" and "n \<notin> set all_guards"
  shows "process env n = env n"
  unfolding process_def
  by (rule exec_execs_frame(2)) (rule targets_libc_compat_h [OF assms])

lemma process_defines_include_guard: "process env ''_LIBC_COMPAT_H'' \<noteq> None"
proof (cases "env ''_LIBC_COMPAT_H'' = None")
  case True
  have "(env(''_LIBC_COMPAT_H'' \<mapsto> [])) ''_LIBC_COMPAT_H'' \<noteq> None"
    by simp
  then have "execs [Ifndef ''__KERNEL__'' userspace_branch kernel_branch]
      (env(''_LIBC_COMPAT_H'' \<mapsto> [])) ''_LIBC_COMPAT_H'' \<noteq> None"
    by (rule exec_execs_keeps_defined(2))
  then show ?thesis
    using True by (simp add: process_def libc_compat_h_def)
next
  case False
  then show ?thesis
    by (simp add: process_skip)
qed

lemma process_dom:
  assumes "env ''_LIBC_COMPAT_H'' = None"
  shows "dom (process env) = dom env \<union> insert ''_LIBC_COMPAT_H'' (set all_guards)"
proof (rule set_eqI)
  fix x
  show "x \<in> dom (process env) \<longleftrightarrow>
        x \<in> dom env \<union> insert ''_LIBC_COMPAT_H'' (set all_guards)"
  proof (cases "x = ''_LIBC_COMPAT_H'' \<or> x \<in> set all_guards")
    case True
    then have "process env x \<noteq> None"
    proof
      assume "x = ''_LIBC_COMPAT_H''"
      then show ?thesis
        using process_defines_include_guard [of env] by simp
    next
      assume "x \<in> set all_guards"
      then obtain g where "x \<in> set (guards g)"
        by (auto simp add: in_all_guards)
      from guard_value [of env x g, OF assms this] show ?thesis
        by simp
    qed
    with True show ?thesis
      by (auto simp add: dom_def)
  next
    case False
    then have "process env x = env x"
      using process_outside [of x env] by simp
    with False show ?thesis
      by (auto simp add: dom_def)
  qed
qed

section \<open>The claims\<close>

text \<open>
  Throughout, "the file is processed" is the first inclusion of the header: the include
  guard \<open>_LIBC_COMPAT_H\<close> is not yet defined, so that the body is entered. Everything
  else about the environment is arbitrary.
\<close>

text \<open>
  C1 as stated, refuted: a defined marker does not give 0 in every configuration.
  With \<open>__KERNEL__\<close> and the marker \<open>_TIME_H\<close> both defined before the header, the
  guard \<open>__UAPI_DEF_TIMESPEC\<close> of the group of \<open>_TIME_H\<close> is 1 and not 0.
\<close>

theorem kernel_overrides_marker_counterexample:
  "kernel_after_time_h ''_LIBC_COMPAT_H'' = None \<and>
   kernel_after_time_h (marker Timespec) \<noteq> None \<and>
   ''__UAPI_DEF_TIMESPEC'' \<in> set (guards Timespec) \<and>
   process kernel_after_time_h ''__UAPI_DEF_TIMESPEC'' = Some ''1'' \<and>
   process kernel_after_time_h ''__UAPI_DEF_TIMESPEC'' \<noteq> Some ''0''"
  by (simp add: kernel_after_time_h_def process_def libc_compat_h_def kernel_branch_def)

text \<open>
  C1, amended: for every marker and every guard of its group, if the marker is defined
  before the header is processed and \<open>__KERNEL__\<close> is not defined, the guard is 0;
  and if the marker is not defined, the guard is 1 (whether \<open>__KERNEL__\<close> is defined
  or not).
\<close>

theorem marker_selects_guard_value:
  assumes "env ''_LIBC_COMPAT_H'' = None"
    and "n \<in> set (guards g)"
  shows "(env (marker g) \<noteq> None \<and> env ''__KERNEL__'' = None \<longrightarrow>
            process env n = Some ''0'') \<and>
         (env (marker g) = None \<longrightarrow> process env n = Some ''1'')"
proof -
  note v = guard_value [of env n g, OF assms]
  show ?thesis
    unfolding v by auto
qed

theorem marker_selects_guard_value_witness:
  "musl_time_and_net ''_LIBC_COMPAT_H'' = None \<and>
   ''__UAPI_DEF_ITIMERSPEC'' \<in> set (guards Timespec) \<and>
   musl_time_and_net (marker Timespec) \<noteq> None \<and>
   musl_time_and_net ''__KERNEL__'' = None \<and>
   process musl_time_and_net ''__UAPI_DEF_ITIMERSPEC'' = Some ''0'' \<and>
   ''__UAPI_DEF_TCPHDR'' \<in> set (guards Tcphdr) \<and>
   musl_time_and_net (marker Tcphdr) = None \<and>
   process musl_time_and_net ''__UAPI_DEF_TCPHDR'' = Some ''1'' \<and>
   kernel_after_time_h ''_LIBC_COMPAT_H'' = None \<and>
   kernel_after_time_h ''__KERNEL__'' \<noteq> None \<and>
   kernel_after_time_h (marker Tcphdr) = None \<and>
   process kernel_after_time_h ''__UAPI_DEF_TCPHDR'' = Some ''1''"
  using marker_selects_guard_value [of musl_time_and_net "''__UAPI_DEF_ITIMERSPEC''" Timespec]
    marker_selects_guard_value [of musl_time_and_net "''__UAPI_DEF_TCPHDR''" Tcphdr]
    marker_selects_guard_value [of kernel_after_time_h "''__UAPI_DEF_TCPHDR''" Tcphdr]
  by (simp add: musl_time_and_net_def kernel_after_time_h_def)

text \<open>
  C2: when \<open>__KERNEL__\<close> is defined, every guard is 1 after the header is processed,
  whichever markers are defined.
\<close>

theorem kernel_all_guards_one:
  assumes "env ''_LIBC_COMPAT_H'' = None"
    and "env ''__KERNEL__'' \<noteq> None"
    and "n \<in> set all_guards"
  shows "process env n = Some ''1''"
proof -
  from assms(3) obtain g where "n \<in> set (guards g)"
    by (auto simp add: in_all_guards)
  then show ?thesis
    using guard_value [of env n g] assms(1,2) by auto
qed

theorem kernel_all_guards_one_witness:
  "kernel_after_time_h ''_LIBC_COMPAT_H'' = None \<and>
   kernel_after_time_h ''__KERNEL__'' \<noteq> None \<and>
   kernel_after_time_h ''_TIME_H'' \<noteq> None \<and>
   ''__UAPI_DEF_ITIMERSPEC'' \<in> set all_guards \<and>
   process kernel_after_time_h ''__UAPI_DEF_ITIMERSPEC'' = Some ''1''"
  using kernel_all_guards_one [of kernel_after_time_h "''__UAPI_DEF_ITIMERSPEC''"]
  by (simp add: kernel_after_time_h_def all_guards_def all_groups_def)

text \<open>
  C3: when none of the markers is defined, every guard is 1 after the header is
  processed (whether \<open>__KERNEL__\<close> is defined or not).
\<close>

theorem no_marker_all_guards_one:
  assumes "env ''_LIBC_COMPAT_H'' = None"
    and "list_all (\<lambda>g. env (marker g) = None) all_groups"
    and "n \<in> set all_guards"
  shows "process env n = Some ''1''"
proof -
  from assms(3) obtain g where g: "n \<in> set (guards g)"
    by (auto simp add: in_all_guards)
  have "env (marker g) = None"
    using assms(2) all_groups_complete [of g] by (simp add: list_all_iff)
  then show ?thesis
    using guard_value [of env n g] assms(1) g by simp
qed

theorem no_marker_all_guards_one_witness:
  "[''_STDIO_H'' \<mapsto> []] ''_LIBC_COMPAT_H'' = None \<and>
   list_all (\<lambda>g. [''_STDIO_H'' \<mapsto> []] (marker g) = None) all_groups \<and>
   ''__UAPI_DEF_IF_IFREQ'' \<in> set all_guards \<and>
   process [''_STDIO_H'' \<mapsto> []] ''__UAPI_DEF_IF_IFREQ'' = Some ''1''"
  using no_marker_all_guards_one [of "[''_STDIO_H'' \<mapsto> []]" "''__UAPI_DEF_IF_IFREQ''"]
  by (simp add: all_guards_def all_groups_def)

text \<open>
  C4: the one marker \<open>_NETINET_IN_H\<close> is the marker of both the IPv4 and the IPv6
  group. When it is defined and \<open>__KERNEL__\<close> is not, each of the fourteen guards of
  the two groups, \<open>__UAPI_DEF_IN6_ADDR_ALT\<close> among them, is 0; when it is not
  defined, each of them is 1.
\<close>

theorem netinet_in_controls_in_and_in6:
  assumes "env ''_LIBC_COMPAT_H'' = None"
    and "n \<in> set (guards In4 @ guards In6)"
  shows "marker In4 = ''_NETINET_IN_H'' \<and> marker In6 = ''_NETINET_IN_H'' \<and>
         length (guards In4 @ guards In6) = 14 \<and> distinct (guards In4 @ guards In6) \<and>
         ''__UAPI_DEF_IN6_ADDR_ALT'' \<in> set (guards In4 @ guards In6) \<and>
         (env ''_NETINET_IN_H'' \<noteq> None \<and> env ''__KERNEL__'' = None \<longrightarrow>
            process env n = Some ''0'') \<and>
         (env ''_NETINET_IN_H'' = None \<longrightarrow> process env n = Some ''1'')"
proof -
  have val: "process env n =
      Some (if env ''__KERNEL__'' = None \<and> env ''_NETINET_IN_H'' \<noteq> None
            then ''0'' else ''1'')"
  proof -
    from assms(2) have "n \<in> set (guards In4) \<or> n \<in> set (guards In6)"
      by (simp only: set_append Un_iff)
    then show ?thesis
    proof
      assume "n \<in> set (guards In4)"
      from guard_value [of env n In4, OF assms(1) this] show ?thesis
        by (simp only: marker.simps)
    next
      assume "n \<in> set (guards In6)"
      from guard_value [of env n In6, OF assms(1) this] show ?thesis
        by (simp only: marker.simps)
    qed
  qed
  have "(env ''_NETINET_IN_H'' \<noteq> None \<and> env ''__KERNEL__'' = None \<longrightarrow>
            process env n = Some ''0'') \<and>
         (env ''_NETINET_IN_H'' = None \<longrightarrow> process env n = Some ''1'')"
    unfolding val by auto
  moreover have "length (guards In4 @ guards In6) = 14"
    by simp
  moreover have "distinct (guards In4 @ guards In6)"
    by simp
  moreover have "''__UAPI_DEF_IN6_ADDR_ALT'' \<in> set (guards In4 @ guards In6)"
    by simp
  ultimately show ?thesis
    by simp
qed

theorem netinet_in_controls_in_and_in6_witness:
  "glibc_netinet_in ''_LIBC_COMPAT_H'' = None \<and>
   glibc_netinet_in ''_NETINET_IN_H'' \<noteq> None \<and>
   glibc_netinet_in ''__KERNEL__'' = None \<and>
   ''__UAPI_DEF_SOCKADDR_IN'' \<in> set (guards In4 @ guards In6) \<and>
   ''__UAPI_DEF_IN6_ADDR_ALT'' \<in> set (guards In4 @ guards In6) \<and>
   process glibc_netinet_in ''__UAPI_DEF_SOCKADDR_IN'' = Some ''0'' \<and>
   process glibc_netinet_in ''__UAPI_DEF_IN6_ADDR_ALT'' = Some ''0'' \<and>
   musl_time_and_net ''_LIBC_COMPAT_H'' = None \<and>
   musl_time_and_net ''_NETINET_IN_H'' = None \<and>
   process musl_time_and_net ''__UAPI_DEF_SOCKADDR_IN'' = Some ''1'' \<and>
   process musl_time_and_net ''__UAPI_DEF_IN6_ADDR_ALT'' = Some ''1''"
  using netinet_in_controls_in_and_in6 [of glibc_netinet_in "''__UAPI_DEF_SOCKADDR_IN''"]
    netinet_in_controls_in_and_in6 [of glibc_netinet_in "''__UAPI_DEF_IN6_ADDR_ALT''"]
    netinet_in_controls_in_and_in6 [of musl_time_and_net "''__UAPI_DEF_SOCKADDR_IN''"]
    netinet_in_controls_in_and_in6 [of musl_time_and_net "''__UAPI_DEF_IN6_ADDR_ALT''"]
  by (simp add: glibc_netinet_in_def musl_time_and_net_def)

text \<open>
  C5: in every configuration, all guards of one group are defined with the same value
  after the header is processed; in particular \<open>__UAPI_DEF_TIMESPEC\<close> has the value of
  \<open>__UAPI_DEF_ITIMERSPEC\<close>, and the six \<open>__UAPI_DEF_IF_*\<close> guards are pairwise equal,
  being the guards of one group.
\<close>

theorem group_guards_agree:
  assumes "env ''_LIBC_COMPAT_H'' = None"
    and "n1 \<in> set (guards g)"
    and "n2 \<in> set (guards g)"
  shows "process env n1 = process env n2 \<and> process env n1 \<noteq> None \<and>
         process env ''__UAPI_DEF_TIMESPEC'' = process env ''__UAPI_DEF_ITIMERSPEC''"
proof -
  note v1 = guard_value [of env n1 g, OF assms(1,2)]
  note v2 = guard_value [of env n2 g, OF assms(1,3)]
  have "process env n1 = process env n2"
    by (simp only: v1 v2)
  moreover have "process env n1 \<noteq> None"
    by (simp only: v1 option.distinct not_False_eq_True)
  moreover have "process env ''__UAPI_DEF_TIMESPEC'' = process env ''__UAPI_DEF_ITIMERSPEC''"
  proof -
    have "''__UAPI_DEF_TIMESPEC'' \<in> set (guards Timespec)"
      and "''__UAPI_DEF_ITIMERSPEC'' \<in> set (guards Timespec)"
      by simp_all
    then show ?thesis
      using assms(1) by (simp only: guard_value [of env _ Timespec])
  qed
  ultimately show ?thesis
    by (intro conjI)
qed

theorem group_guards_agree_witness:
  "musl_time_and_net ''_LIBC_COMPAT_H'' = None \<and>
   ''__UAPI_DEF_IF_IFNAMSIZ'' \<in> set (guards Net_if) \<and>
   ''__UAPI_DEF_IF_IFCONF'' \<in> set (guards Net_if) \<and>
   process musl_time_and_net ''__UAPI_DEF_IF_IFNAMSIZ'' =
     process musl_time_and_net ''__UAPI_DEF_IF_IFCONF'' \<and>
   process musl_time_and_net ''__UAPI_DEF_IF_IFNAMSIZ'' \<noteq> None"
proof -
  have first: "musl_time_and_net ''_LIBC_COMPAT_H'' = None"
    by (simp add: musl_time_and_net_def)
  have n1: "''__UAPI_DEF_IF_IFNAMSIZ'' \<in> set (guards Net_if)"
    by simp
  have n2: "''__UAPI_DEF_IF_IFCONF'' \<in> set (guards Net_if)"
    by simp
  from group_guards_agree [of musl_time_and_net _ Net_if, OF first n1 n2] first n1 n2
  show ?thesis
    by blast
qed

text \<open>
  C6: in every configuration, every guard is defined after the header is processed,
  and its replacement text is exactly 0 or exactly 1.
\<close>

theorem guards_defined_boolean:
  assumes "env ''_LIBC_COMPAT_H'' = None"
    and "n \<in> set all_guards"
  shows "process env n = Some ''0'' \<or> process env n = Some ''1''"
proof -
  from assms(2) obtain g where "n \<in> set (guards g)"
    by (auto simp add: in_all_guards)
  then show ?thesis
    using guard_value [of env n g] assms(1) by simp
qed

theorem guards_defined_boolean_witness:
  "glibc_netinet_in ''_LIBC_COMPAT_H'' = None \<and>
   ''__UAPI_DEF_XATTR'' \<in> set all_guards \<and>
   (process glibc_netinet_in ''__UAPI_DEF_XATTR'' = Some ''0'' \<or>
    process glibc_netinet_in ''__UAPI_DEF_XATTR'' = Some ''1'')"
  using guards_defined_boolean [of glibc_netinet_in "''__UAPI_DEF_XATTR''"]
  by (simp add: glibc_netinet_in_def all_guards_def all_groups_def)

text \<open>
  C7 as stated, refuted: a group does not have exactly one guard name. The group of
  \<open>_TIME_H\<close> has the two different guard names \<open>__UAPI_DEF_TIMESPEC\<close> and
  \<open>__UAPI_DEF_ITIMERSPEC\<close>, and processing the header from the empty environment
  defines both.
\<close>

theorem timespec_group_two_guards_counterexample:
  "''__UAPI_DEF_TIMESPEC'' \<in> set (guards Timespec) \<and>
   ''__UAPI_DEF_ITIMERSPEC'' \<in> set (guards Timespec) \<and>
   ''__UAPI_DEF_TIMESPEC'' \<noteq> ''__UAPI_DEF_ITIMERSPEC'' \<and>
   length (guards Timespec) = 2 \<and>
   process Map.empty ''__UAPI_DEF_TIMESPEC'' = Some ''1'' \<and>
   process Map.empty ''__UAPI_DEF_ITIMERSPEC'' = Some ''1''"
  by (simp add: process_def libc_compat_h_def userspace_branch_def)

text \<open>
  C7, amended: the external interface is a fixed set of 28 different guard names, the
  same in every configuration (the names defined after processing are those defined
  before, the include guard and exactly these 28), with at least one guard name per
  definition group: one each for the Ethernet, TCP and extended-attribute groups, two
  for timespec/itimerspec, three for timeval/itimerval/timezone, six for the interface
  group, six for IPv4 and eight for IPv6.
\<close>

theorem guard_interface_fixed:
  assumes "env ''_LIBC_COMPAT_H'' = None"
  shows "dom (process env) = dom env \<union> insert ''_LIBC_COMPAT_H'' (set all_guards) \<and>
         distinct all_guards \<and> length all_guards = 28 \<and>
         map (\<lambda>g. length (guards g)) all_groups = [1, 1, 2, 3, 6, 6, 8, 1]"
proof -
  have "length all_guards = 28"
    by (simp add: all_guards_def all_groups_def)
  moreover have "map (\<lambda>g. length (guards g)) all_groups = [1, 1, 2, 3, 6, 6, 8, 1]"
    by (simp add: all_groups_def)
  ultimately show ?thesis
    using process_dom [of env, OF assms] distinct_all_guards by (intro conjI)
qed

theorem guard_interface_fixed_witness:
  "musl_time_and_net ''_LIBC_COMPAT_H'' = None \<and>
   dom (process musl_time_and_net) =
     dom musl_time_and_net \<union> insert ''_LIBC_COMPAT_H'' (set all_guards) \<and>
   length all_guards = 28"
proof -
  have first: "musl_time_and_net ''_LIBC_COMPAT_H'' = None"
    by (simp add: musl_time_and_net_def)
  from guard_interface_fixed [of musl_time_and_net, OF first] first show ?thesis
    by blast
qed

text \<open>
  C8: processing the header changes the macro environment at no name other than the
  guard macros, all of which are named \<open>__UAPI_DEF_...\<close>, and its own include guard
  \<open>_LIBC_COMPAT_H\<close>: every other name has the definition, or the lack of one, that it
  had before.
\<close>

theorem process_frame:
  assumes "n \<noteq> ''_LIBC_COMPAT_H''"
    and "n \<notin> set all_guards"
  shows "process env n = env n \<and> list_all (\<lambda>g. take 11 g = ''__UAPI_DEF_'') all_guards"
proof -
  have "list_all (\<lambda>g. take 11 g = ''__UAPI_DEF_'') all_guards"
    by (simp add: all_guards_def all_groups_def)
  then show ?thesis
    using process_outside [of n env, OF assms] by (intro conjI)
qed

theorem process_frame_witness:
  "''_TIME_H'' \<noteq> ''_LIBC_COMPAT_H'' \<and> ''_TIME_H'' \<notin> set all_guards \<and>
   process kernel_after_time_h ''_TIME_H'' = Some [] \<and>
   ''_STDIO_H'' \<noteq> ''_LIBC_COMPAT_H'' \<and> ''_STDIO_H'' \<notin> set all_guards \<and>
   process kernel_after_time_h ''_STDIO_H'' = None"
proof -
  have t: "''_TIME_H'' \<noteq> ''_LIBC_COMPAT_H''" "''_TIME_H'' \<notin> set all_guards"
    and s: "''_STDIO_H'' \<noteq> ''_LIBC_COMPAT_H''" "''_STDIO_H'' \<notin> set all_guards"
    by (simp_all add: all_guards_def all_groups_def)
  have "kernel_after_time_h ''_TIME_H'' = Some []"
    and "kernel_after_time_h ''_STDIO_H'' = None"
    by (simp_all add: kernel_after_time_h_def)
  with process_frame [of "''_TIME_H''" kernel_after_time_h, OF t]
    process_frame [of "''_STDIO_H''" kernel_after_time_h, OF s] t s
  show ?thesis
    by simp
qed

text \<open>
  C9: processing the header is idempotent. The first processing leaves
  \<open>_LIBC_COMPAT_H\<close> defined, and the header skips its whole body when
  \<open>_LIBC_COMPAT_H\<close> is defined, so processing it again from the environment the first
  processing produced changes nothing.
\<close>

theorem process_idempotent: "process (process env) = process env"
  by (rule process_skip) (rule process_defines_include_guard)

text \<open>
  C10: the guards of a group depend only on \<open>__KERNEL__\<close> and on the marker of the
  group. Two environments that agree on whether \<open>__KERNEL__\<close> is defined and on
  whether the marker of the group is defined, and differ in any way elsewhere, give
  every guard of the group the same value.
\<close>

theorem group_noninterference:
  assumes "env1 ''_LIBC_COMPAT_H'' = None"
    and "env2 ''_LIBC_COMPAT_H'' = None"
    and "(env1 ''__KERNEL__'' = None) = (env2 ''__KERNEL__'' = None)"
    and "(env1 (marker g) = None) = (env2 (marker g) = None)"
    and "n \<in> set (guards g)"
  shows "process env1 n = process env2 n"
proof -
  note v1 = guard_value [of env1 n g, OF assms(1,5)]
  note v2 = guard_value [of env2 n g, OF assms(2,5)]
  show ?thesis
    by (simp only: v1 v2 assms(3,4))
qed

theorem group_noninterference_witness:
  "musl_time_and_net ''_LIBC_COMPAT_H'' = None \<and>
   [''_TIME_H'' \<mapsto> ''1'', ''_SYS_XATTR_H'' \<mapsto> []] ''_LIBC_COMPAT_H'' = None \<and>
   (musl_time_and_net ''__KERNEL__'' = None) =
     ([''_TIME_H'' \<mapsto> ''1'', ''_SYS_XATTR_H'' \<mapsto> []] ''__KERNEL__'' = None) \<and>
   (musl_time_and_net (marker Timespec) = None) =
     ([''_TIME_H'' \<mapsto> ''1'', ''_SYS_XATTR_H'' \<mapsto> []] (marker Timespec) = None) \<and>
   musl_time_and_net ''_NET_IF_H'' \<noteq>
     [''_TIME_H'' \<mapsto> ''1'', ''_SYS_XATTR_H'' \<mapsto> []] ''_NET_IF_H'' \<and>
   ''__UAPI_DEF_TIMESPEC'' \<in> set (guards Timespec) \<and>
   process musl_time_and_net ''__UAPI_DEF_TIMESPEC'' =
     process [''_TIME_H'' \<mapsto> ''1'', ''_SYS_XATTR_H'' \<mapsto> []] ''__UAPI_DEF_TIMESPEC''"
  using group_noninterference
    [of musl_time_and_net "[''_TIME_H'' \<mapsto> ''1'', ''_SYS_XATTR_H'' \<mapsto> []]" Timespec
        "''__UAPI_DEF_TIMESPEC''"]
  by (simp add: musl_time_and_net_def)

end
